theory Spec2Isabelle
  imports Complex_Main "HOL-Library.Word" "HOL-Library.AList"
begin

text \<open>
  The Obsidian plugin of WOPR: the REST client of the vault (\<open>obsidian-client.ts\<close>),
  the tool actions built on it (\<open>a2a-tools.ts\<close>) and the callbacks that the plugin
  registers with its host, with \<open>shutdown\<close> (\<open>index.ts\<close>).  Functions return the
  value or the thrown error, together with the objects and the world they may have
  changed.
\<close>

section \<open>JavaScript values used by the plugin\<close>

text \<open>
  A JavaScript string is a sequence of UTF-16 code units; \<open>slice\<close> and \<open>length\<close>
  count code units.  \<open>lit\<close> embeds an ASCII literal of the source.
\<close>

type_synonym code_unit = "16 word"
type_synonym jsstring = "code_unit list"

definition lit :: "string \<Rightarrow> jsstring" where
  "lit s = map (\<lambda>c. word_of_nat (of_char c)) s"

definition dquote :: jsstring where
  "dquote = [0x22]"

definition newline :: jsstring where
  "newline = [0x0A]"

text \<open>
  A thrown value: an \<open>Error\<close> instance carrying its \<open>message\<close> (\<open>TypeError\<close>,
  \<open>URIError\<close> and \<open>SyntaxError\<close> are \<open>Error\<close> instances), or any other value,
  carried as the text \<open>String(value)\<close> gives.  The result of a call, and of an awaited
  promise, is a returned value or a thrown one.
\<close>

datatype thrown = JsError jsstring | JsValue jsstring

datatype 'a result = Returned 'a | Threw thrown

text \<open>\<open>String(n)\<close> and template interpolation of a non-negative integer.\<close>

fun dec :: "nat \<Rightarrow> jsstring" where
  "dec n = (if n < 10 then [word_of_nat (48 + n)]
            else dec (n div 10) @ [word_of_nat (48 + n mod 10)])"

declare dec.simps [simp del]

section \<open>types.ts\<close>

record obsidian_stat =
  ctime :: real
  mtime :: real
  size :: real

record obsidian_note =
  note_path :: jsstring
  note_content :: jsstring
  note_stat :: obsidian_stat

record match_span =
  span_start :: nat
  span_end :: nat

record obsidian_match =
  match_span :: match_span
  match_context :: jsstring

record obsidian_search_result =
  filename :: jsstring
  score :: real
  matches :: "obsidian_match list"

text \<open>The body of a folder listing: \<open>{ files: string[] }\<close>, the field possibly absent.\<close>

record listing =
  files :: "jsstring list option"

section \<open>The platform: fetch, URL encoding, the vault server\<close>

datatype http_method = GET | PUT | POST

record request =
  req_url :: jsstring
  req_method :: http_method
  req_headers :: "(jsstring \<times> jsstring) list"
  req_body :: "jsstring option"

text \<open>
  A fetch response.  \<open>res.ok\<close> is true exactly for a status in 200..299 (the Fetch
  standard); \<open>res.json()\<close> is a promise that may reject.
\<close>

record 'b response =
  status :: nat
  statusText :: jsstring
  json :: "'b result"

definition res_ok :: "'b response \<Rightarrow> bool" where
  "res_ok res = (200 \<le> status res \<and> status res \<le> 299)"

text \<open>
  What lies outside the repository is a parameter: the built-ins
  \<open>encodeURIComponent\<close> (throws \<open>URIError\<close> on a lone surrogate), the URL parser
  (\<open>url_href s ps\<close> is \<open>new URL(s)\<close>, \<open>searchParams.set\<close> for each pair of
  \<open>ps\<close> in turn, then \<open>toString()\<close>; it throws \<open>TypeError\<close> when the parser
  rejects \<open>s\<close>), \<open>JSON.stringify(data, null, 2)\<close>, and
  the vault server with the transport to it.  The server answers a request having seen
  the requests issued before; a transport failure is a rejected fetch.  The reply is
  typed by what the caller casts the body to.
\<close>

datatype json =
    JString jsstring
  | JNumber real
  | JBoolean bool
  | JArray "json list"
  | JObject "(jsstring \<times> json) list"

record env =
  encodeURIComponent :: "jsstring \<Rightarrow> jsstring result"
  url_href :: "jsstring \<Rightarrow> (jsstring \<times> jsstring) list \<Rightarrow> jsstring result"
  stringify :: "json \<Rightarrow> jsstring"
  reply_plain :: "request list \<Rightarrow> request \<Rightarrow> unit response result"
  reply_note :: "request list \<Rightarrow> request \<Rightarrow> obsidian_note response result"
  reply_search :: "request list \<Rightarrow> request \<Rightarrow> obsidian_search_result list response result"
  reply_list :: "request list \<Rightarrow> request \<Rightarrow> listing response result"

text \<open>
  The world outside the module: the fetch calls made so far (oldest first), the interval
  timers that are running, and the state of the host runtime, which the plugin reaches
  only through the methods of its context object.
\<close>

record 'h world =
  requests :: "request list"
  timers :: "nat list"
  host :: 'h

definition fetch ::
  "(request list \<Rightarrow> request \<Rightarrow> 'b response result) \<Rightarrow> request \<Rightarrow> 'h world
    \<Rightarrow> 'b response result \<times> 'h world" where
  "fetch reply rq w = (reply (requests w) rq, w\<lparr>requests := requests w @ [rq]\<rparr>)"

section \<open>obsidian-client.ts\<close>

text \<open>
  The object \<open>this\<close> is passed in and returned, so that an assignment to a field is
  visible in the result.
\<close>

record client =
  baseUrl :: jsstring
  headers :: "(jsstring \<times> jsstring) list"
  connected :: bool

definition new_ObsidianClient :: "nat \<Rightarrow> jsstring \<Rightarrow> client" where
  "new_ObsidianClient port apiKey =
     \<lparr>baseUrl = lit ''http://127.0.0.1:'' @ dec port,
      headers = [(lit ''Authorization'', lit ''Bearer '' @ apiKey),
                 (lit ''Content-Type'', lit ''application/json'')],
      connected = False\<rparr>"

definition isConnected :: "client \<Rightarrow> bool" where
  "isConnected this = connected this"

definition ping :: "env \<Rightarrow> client \<Rightarrow> 'h world \<Rightarrow> bool result \<times> client \<times> 'h world" where
  "ping e this w =
     (case fetch (reply_plain e)
             \<lparr>req_url = baseUrl this @ lit ''/'', req_method = GET,
              req_headers = headers this, req_body = None\<rparr> w of
        (Returned res, w') \<Rightarrow>
          (let this' = this\<lparr>connected := res_ok res\<rparr>
           in (Returned (connected this'), this', w'))
      | (Threw _, w') \<Rightarrow> (Returned False, this\<lparr>connected := False\<rparr>, w'))"

definition failed :: "jsstring \<Rightarrow> jsstring \<Rightarrow> 'b response \<Rightarrow> thrown" where
  "failed what name res =
     JsError (what @ dquote @ name @ dquote @ lit '': '' @ dec (status res) @ lit '' ''
              @ statusText res)"

definition read ::
  "env \<Rightarrow> client \<Rightarrow> jsstring \<Rightarrow> 'h world \<Rightarrow> obsidian_note result \<times> client \<times> 'h world" where
  "read e this path w =
     (case encodeURIComponent e path of
        Threw x \<Rightarrow> (Threw x, this, w)
      | Returned p \<Rightarrow>
          (case fetch (reply_note e)
                  \<lparr>req_url = baseUrl this @ lit ''/vault/'' @ p, req_method = GET,
                   req_headers =
                     AList.update (lit ''Accept'') (lit ''application/json'') (headers this),
                   req_body = None\<rparr> w of
             (Threw x, w') \<Rightarrow> (Threw x, this, w')
           | (Returned res, w') \<Rightarrow>
               if \<not> res_ok res then (Threw (failed (lit ''Failed to read note '') path res), this, w')
               else (json res, this, w')))"

definition write_note ::
  "env \<Rightarrow> client \<Rightarrow> jsstring \<Rightarrow> jsstring \<Rightarrow> 'h world \<Rightarrow> unit result \<times> client \<times> 'h world" where
  "write_note e this path content w =
     (case encodeURIComponent e path of
        Threw x \<Rightarrow> (Threw x, this, w)
      | Returned p \<Rightarrow>
          (case fetch (reply_plain e)
                  \<lparr>req_url = baseUrl this @ lit ''/vault/'' @ p, req_method = PUT,
                   req_headers =
                     AList.update (lit ''Content-Type'') (lit ''text/markdown'') (headers this),
                   req_body = Some content\<rparr> w of
             (Threw x, w') \<Rightarrow> (Threw x, this, w')
           | (Returned res, w') \<Rightarrow>
               if \<not> res_ok res then (Threw (failed (lit ''Failed to write note '') path res), this, w')
               else (Returned (), this, w')))"

definition append_note ::
  "env \<Rightarrow> client \<Rightarrow> jsstring \<Rightarrow> jsstring \<Rightarrow> 'h world \<Rightarrow> unit result \<times> client \<times> 'h world" where
  "append_note e this path content w =
     (case encodeURIComponent e path of
        Threw x \<Rightarrow> (Threw x, this, w)
      | Returned p \<Rightarrow>
          (case fetch (reply_plain e)
                  \<lparr>req_url = baseUrl this @ lit ''/vault/'' @ p, req_method = POST,
                   req_headers =
                     AList.update (lit ''Content-Type'') (lit ''text/markdown'') (headers this),
                   req_body = Some content\<rparr> w of
             (Threw x, w') \<Rightarrow> (Threw x, this, w')
           | (Returned res, w') \<Rightarrow>
               if \<not> res_ok res
               then (Threw (failed (lit ''Failed to append to note '') path res), this, w')
               else (Returned (), this, w')))"

definition search ::
  "env \<Rightarrow> client \<Rightarrow> jsstring \<Rightarrow> nat \<Rightarrow> 'h world
    \<Rightarrow> obsidian_search_result list result \<times> client \<times> 'h world" where
  "search e this query contextLength w =
     (case url_href e (baseUrl this @ lit ''/search/simple/'')
             [(lit ''query'', query), (lit ''contextLength'', dec contextLength)] of
        Threw x \<Rightarrow> (Threw x, this, w)
      | Returned url \<Rightarrow>
          (case fetch (reply_search e)
                  \<lparr>req_url = url, req_method = GET, req_headers = headers this,
                   req_body = None\<rparr> w of
             (Threw x, w') \<Rightarrow> (Threw x, this, w')
           | (Returned res, w') \<Rightarrow>
               if \<not> res_ok res
               then (Threw (JsError (lit ''Search failed: '' @ dec (status res) @ lit '' ''
                                     @ statusText res)), this, w')
               else (json res, this, w')))"

definition list_folder ::
  "env \<Rightarrow> client \<Rightarrow> jsstring \<Rightarrow> 'h world \<Rightarrow> jsstring list result \<times> client \<times> 'h world" where
  "list_folder e this folder w =
     (case (if folder \<noteq> [] then
              (case encodeURIComponent e folder of
                 Threw x \<Rightarrow> Threw x
               | Returned f \<Rightarrow> Returned (f @ lit ''/''))
            else Returned []) of
        Threw x \<Rightarrow> (Threw x, this, w)
      | Returned path \<Rightarrow>
          (case fetch (reply_list e)
                  \<lparr>req_url = baseUrl this @ lit ''/vault/'' @ path, req_method = GET,
                   req_headers = headers this, req_body = None\<rparr> w of
             (Threw x, w') \<Rightarrow> (Threw x, this, w')
           | (Returned res, w') \<Rightarrow>
               if \<not> res_ok res
               then (Threw (failed (lit ''Failed to list folder '') folder res), this, w')
               else
                 (case json res of
                    Threw x \<Rightarrow> (Threw x, this, w')
                  | Returned data \<Rightarrow>
                      (Returned (case files data of None \<Rightarrow> [] | Some fs \<Rightarrow> fs), this, w'))))"

section \<open>Array and string built-ins\<close>

text \<open>
  \<open>xs.slice(start, end)\<close> on an array, and on a string, for integral arguments: a
  negative index counts from the end, and both indices are clamped to the length.
\<close>

definition js_slice :: "'a list \<Rightarrow> int \<Rightarrow> int \<Rightarrow> 'a list" where
  "js_slice xs start end =
     (let len = int (length xs);
          k = (if start < 0 then max (len + start) 0 else min start len);
          final = (if end < 0 then max (len + end) 0 else min end len)
      in take (nat (final - k)) (drop (nat k) xs))"

text \<open>\<open>xs.join(sep)\<close> on an array of strings.\<close>

fun join :: "jsstring \<Rightarrow> jsstring list \<Rightarrow> jsstring" where
  "join sep [] = []"
| "join sep [x] = x"
| "join sep (x # y # ys) = x @ sep @ join sep (y # ys)"

text \<open>
  \<open>s.trim()\<close> removes the leading and trailing white space and line terminators of
  ECMAScript: TAB, LF, VT, FF, CR, the space separators of Unicode, LS, PS and the
  byte order mark.
\<close>

definition is_ws :: "code_unit \<Rightarrow> bool" where
  "is_ws u =
     (u \<in> {0x9, 0xA, 0xB, 0xC, 0xD, 0x20, 0xA0, 0x1680, 0x2028, 0x2029, 0x202F, 0x205F,
           0x3000, 0xFEFF}
      \<or> (0x2000 \<le> u \<and> u \<le> 0x200A))"

definition trim :: "jsstring \<Rightarrow> jsstring" where
  "trim s = rev (dropWhile is_ws (rev (dropWhile is_ws s)))"

text \<open>
  The \<open>TypeError\<close> of reading a property of \<open>null\<close> or \<open>undefined\<close>; the wording of
  its message is the engine's.
\<close>

definition TypeError :: thrown where
  "TypeError = JsError (lit ''TypeError'')"

section \<open>a2a-tools.ts\<close>

record tool_result =
  content_text :: jsstring
  isError :: "bool option"

definition ok :: "env \<Rightarrow> json \<Rightarrow> tool_result" where
  "ok e data = \<lparr>content_text = stringify e data, isError = None\<rparr>"

text \<open>\<open>error instanceof Error ? error.message : String(error)\<close>\<close>

definition error_message :: "thrown \<Rightarrow> jsstring" where
  "error_message error = (case error of JsError message \<Rightarrow> message | JsValue s \<Rightarrow> s)"

definition err :: "thrown \<Rightarrow> tool_result" where
  "err error = \<lparr>content_text = error_message error, isError = Some True\<rparr>"

text \<open>
  The argument of a handler is \<open>unknown\<close>, cast to the declared shape; \<open>None\<close> is a
  missing argument (\<open>undefined\<close> or \<open>null\<close>), which only the list handler replaces
  by an empty object before destructuring.  Each handler closes over the client that
  \<open>buildA2ATools\<close> received.
\<close>

record search_args =
  sa_query :: jsstring
  sa_limit :: "int option"

record read_args =
  ra_path :: jsstring

record write_args =
  wa_path :: jsstring
  wa_content :: jsstring

record list_args =
  la_folder :: "jsstring option"

definition search_item :: "obsidian_search_result \<Rightarrow> json" where
  "search_item r =
     JObject [(lit ''path'', JString (filename r)),
              (lit ''score'', JNumber (score r)),
              (lit ''context'',
                 JString (case matches r of [] \<Rightarrow> [] | m # _ \<Rightarrow> match_context m))]"

definition search_handler ::
  "env \<Rightarrow> client \<Rightarrow> search_args option \<Rightarrow> 'h world
    \<Rightarrow> tool_result result \<times> client \<times> 'h world" where
  "search_handler e cl args w =
     (case args of
        None \<Rightarrow> (Threw TypeError, cl, w)
      | Some a \<Rightarrow>
          (let query = sa_query a;
               limit = (case sa_limit a of None \<Rightarrow> 5 | Some l \<Rightarrow> l)
           in case search e cl query 200 w of
                (Returned results, cl', w') \<Rightarrow>
                  (Returned (ok e (JArray (map search_item (js_slice results 0 limit)))), cl', w')
              | (Threw error, cl', w') \<Rightarrow> (Returned (err error), cl', w')))"

definition read_handler ::
  "env \<Rightarrow> client \<Rightarrow> read_args option \<Rightarrow> 'h world
    \<Rightarrow> tool_result result \<times> client \<times> 'h world" where
  "read_handler e cl args w =
     (case args of
        None \<Rightarrow> (Threw TypeError, cl, w)
      | Some a \<Rightarrow>
          (case read e cl (ra_path a) w of
             (Returned note, cl', w') \<Rightarrow>
               (Returned (ok e (JObject [(lit ''path'', JString (note_path note)),
                                         (lit ''content'', JString (note_content note))])),
                cl', w')
           | (Threw error, cl', w') \<Rightarrow> (Returned (err error), cl', w')))"

definition write_handler ::
  "env \<Rightarrow> client \<Rightarrow> write_args option \<Rightarrow> 'h world
    \<Rightarrow> tool_result result \<times> client \<times> 'h world" where
  "write_handler e cl args w =
     (case args of
        None \<Rightarrow> (Threw TypeError, cl, w)
      | Some a \<Rightarrow>
          (case write_note e cl (wa_path a) (wa_content a) w of
             (Returned _, cl', w') \<Rightarrow>
               (Returned (ok e (JObject [(lit ''success'', JBoolean True),
                                         (lit ''path'', JString (wa_path a))])),
                cl', w')
           | (Threw error, cl', w') \<Rightarrow> (Returned (err error), cl', w')))"

definition append_handler ::
  "env \<Rightarrow> client \<Rightarrow> write_args option \<Rightarrow> 'h world
    \<Rightarrow> tool_result result \<times> client \<times> 'h world" where
  "append_handler e cl args w =
     (case args of
        None \<Rightarrow> (Threw TypeError, cl, w)
      | Some a \<Rightarrow>
          (case append_note e cl (wa_path a) (wa_content a) w of
             (Returned _, cl', w') \<Rightarrow>
               (Returned (ok e (JObject [(lit ''success'', JBoolean True),
                                         (lit ''path'', JString (wa_path a))])),
                cl', w')
           | (Threw error, cl', w') \<Rightarrow> (Returned (err error), cl', w')))"

definition list_handler ::
  "env \<Rightarrow> client \<Rightarrow> list_args option \<Rightarrow> 'h world
    \<Rightarrow> tool_result result \<times> client \<times> 'h world" where
  "list_handler e cl args w =
     (let folder = (case args of
                      None \<Rightarrow> []
                    | Some a \<Rightarrow> (case la_folder a of None \<Rightarrow> [] | Some f \<Rightarrow> f))
      in case list_folder e cl folder w of
           (Returned fs, cl', w') \<Rightarrow>
             (Returned (ok e (JObject [(lit ''folder'', JString folder),
                                       (lit ''files'', JArray (map JString fs))])),
              cl', w')
         | (Threw error, cl', w') \<Rightarrow> (Returned (err error), cl', w'))"

section \<open>index.ts\<close>

text \<open>
  Each callback and \<open>shutdown\<close> is a function of the module variables and the world,
  run from its first statement to its return: what another task does between two of its
  awaits is not part of the model.
\<close>

subsection \<open>Configuration and the host context\<close>

text \<open>
  \<open>sessionArchive\<close> is declared boolean, and the select field of the configuration
  schema stores the strings "true" and "false"; an unset field is \<open>undefined\<close>.
  \<open>js_String\<close> is \<open>String(value)\<close> on these.
\<close>

datatype archive_setting = Unset | Flag bool | Text jsstring

fun js_String :: "archive_setting \<Rightarrow> jsstring" where
  "js_String Unset = lit ''undefined''"
| "js_String (Flag b) = (if b then lit ''true'' else lit ''false'')"
| "js_String (Text s) = s"

record obsidian_config =
  apiKey :: "jsstring option"
  port :: "nat option"
  vaultPath :: "jsstring option"
  injectContext :: "jsstring option"
  maxContextNotes :: "int option"
  sessionArchive :: archive_setting

datatype level = Info | Warn

text \<open>
  The methods of \<open>WOPRPluginContext\<close> that the running plugin calls, as functions on
  the host's state.  \<open>getConfig\<close> reads the live configuration and the logging sink
  records a line; an unregistration may throw.
\<close>

record 'h host_context =
  getConfig :: "'h \<Rightarrow> obsidian_config"
  ctx_log :: "level \<Rightarrow> jsstring \<Rightarrow> 'h \<Rightarrow> 'h"
  unregisterConfigSchema :: "jsstring \<Rightarrow> 'h \<Rightarrow> unit result \<times> 'h"
  unregisterContextProvider :: "jsstring \<Rightarrow> 'h \<Rightarrow> unit result \<times> 'h"
  unregisterExtension :: "jsstring \<Rightarrow> 'h \<Rightarrow> unit result \<times> 'h"

text \<open>
  The module-level variables, \<open>null\<close> until \<open>init\<close>, which sets \<open>ctx\<close>,
  \<open>client\<close> and \<open>healthTimer\<close> and pushes the two unsubscribe closures that the
  host's event bus returned.
\<close>

record 'h module_state =
  ctx :: "'h host_context option"
  client :: "client option"
  healthTimer :: "nat option"
  cleanups :: "('h \<Rightarrow> unit result \<times> 'h) list"

text \<open>\<open>ctx?.log.info(msg)\<close> and \<open>ctx?.log.warn(msg)\<close>\<close>

definition log_to :: "'h host_context option \<Rightarrow> level \<Rightarrow> jsstring \<Rightarrow> 'h world \<Rightarrow> 'h world" where
  "log_to c lv msg w =
     (case c of None \<Rightarrow> w | Some h \<Rightarrow> w\<lparr>host := ctx_log h lv msg (host w)\<rparr>)"

text \<open>\<open>ctx?.m(name)\<close> for an unregistration method \<open>m\<close>\<close>

definition optional_call ::
  "'h host_context option \<Rightarrow> ('h host_context \<Rightarrow> jsstring \<Rightarrow> 'h \<Rightarrow> unit result \<times> 'h)
    \<Rightarrow> jsstring \<Rightarrow> 'h world \<Rightarrow> unit result \<times> 'h world" where
  "optional_call c m name w =
     (case c of
        None \<Rightarrow> (Returned (), w)
      | Some h \<Rightarrow> (case m h name (host w) of (r, h') \<Rightarrow> (r, w\<lparr>host := h'\<rparr>)))"

definition clearInterval :: "nat \<Rightarrow> 'h world \<Rightarrow> 'h world" where
  "clearInterval t w = w\<lparr>timers := removeAll t (timers w)\<rparr>"

subsection \<open>The context provider\<close>

record message_info =
  msg_content :: "jsstring option"

record context_metadata =
  source :: jsstring
  priority :: nat
  noteCount :: nat

record context_part =
  part_content :: jsstring
  part_role :: jsstring
  part_metadata :: context_metadata

definition heading :: "obsidian_search_result \<Rightarrow> jsstring" where
  "heading r = lit ''### '' @ filename r @ newline"

definition could_not_read :: jsstring where
  "could_not_read = lit ''*(could not read)*''"

definition rule_sep :: jsstring where
  "rule_sep = newline @ newline @ lit ''---'' @ newline @ newline"

definition notes_header :: jsstring where
  "notes_header = lit ''## Relevant notes from your Obsidian vault:'' @ newline @ newline"

text \<open>The callback of \<open>top.map\<close>: one note section, the read failure caught.\<close>

definition note_section ::
  "env \<Rightarrow> client \<Rightarrow> obsidian_search_result \<Rightarrow> 'h world \<Rightarrow> jsstring \<times> client \<times> 'h world" where
  "note_section e cl r w =
     (case read e cl (filename r) w of
        (Returned note, cl', w') \<Rightarrow> (heading r @ js_slice (note_content note) 0 2000, cl', w')
      | (Threw _, cl', w') \<Rightarrow> (heading r @ could_not_read, cl', w'))"

text \<open>
  \<open>Promise.all(top.map(...))\<close>: the callbacks issue their requests in the order of
  \<open>top\<close>, none of them rejects, and the sections come back in that order.
\<close>

fun read_notes ::
  "env \<Rightarrow> client \<Rightarrow> obsidian_search_result list \<Rightarrow> 'h world
    \<Rightarrow> jsstring list \<times> client \<times> 'h world" where
  "read_notes e cl [] w = ([], cl, w)"
| "read_notes e cl (r # rs) w =
     (case note_section e cl r w of
        (n, cl1, w1) \<Rightarrow>
          (case read_notes e cl1 rs w1 of (ns, cl2, w2) \<Rightarrow> (n # ns, cl2, w2)))"

definition getContext ::
  "env \<Rightarrow> 'h module_state \<Rightarrow> jsstring \<Rightarrow> message_info \<Rightarrow> 'h world
    \<Rightarrow> context_part option result \<times> 'h module_state \<times> 'h world" where
  "getContext e s session message w =
     (case ctx s of
        None \<Rightarrow> (Threw TypeError, s, w)
      | Some h \<Rightarrow>
          (let cfg = getConfig h (host w) in
           if injectContext cfg \<noteq> Some (lit ''always'') then (Returned None, s, w)
           else
             (case client s of
                None \<Rightarrow> (Threw TypeError, s, w)
              | Some cl \<Rightarrow>
                  if \<not> isConnected cl then (Returned None, s, w)
                  else
                    (case msg_content message of
                       None \<Rightarrow> (Returned None, s, w)
                     | Some query \<Rightarrow>
                         if trim query = [] then (Returned None, s, w)
                         else
                           (case search e cl query 200 w of
                              (Threw error, cl1, w1) \<Rightarrow>
                                (Returned None, s\<lparr>client := Some cl1\<rparr>,
                                 log_to (ctx s) Warn
                                   (lit ''Obsidian context fetch failed: '' @ error_message error) w1)
                            | (Returned results, cl1, w1) \<Rightarrow>
                                (let top = js_slice results 0
                                             (case maxContextNotes cfg of None \<Rightarrow> 3 | Some n \<Rightarrow> n)
                                 in if top = [] then (Returned None, s\<lparr>client := Some cl1\<rparr>, w1)
                                    else
                                      (case read_notes e cl1 top w1 of
                                         (notes, cl2, w2) \<Rightarrow>
                                           (Returned (Some
                                              \<lparr>part_content = notes_header @ join rule_sep notes,
                                               part_role = lit ''system'',
                                               part_metadata =
                                                 \<lparr>source = lit ''obsidian'', priority = 30,
                                                  noteCount = length top\<rparr>\<rparr>),
                                            s\<lparr>client := Some cl2\<rparr>, w2))))))))"

subsection \<open>The session archive\<close>

record history_entry =
  entry_role :: jsstring
  entry_content :: jsstring

record session_destroy_event =
  session :: jsstring
  history :: "history_entry list"

definition archive_path :: "obsidian_config \<Rightarrow> jsstring \<Rightarrow> jsstring \<Rightarrow> jsstring" where
  "archive_path cfg date sess =
     (case vaultPath cfg of None \<Rightarrow> lit ''WOPR'' | Some v \<Rightarrow> v)
     @ lit ''/sessions/'' @ date @ lit ''-'' @ sess @ lit ''.md''"

definition archive_document :: "jsstring \<Rightarrow> jsstring \<Rightarrow> history_entry list \<Rightarrow> jsstring" where
  "archive_document sess stamp hist =
     lit ''# Session '' @ sess @ newline @ lit ''*'' @ stamp @ lit ''*'' @ newline @ newline
     @ join (newline @ newline)
         (map (\<lambda>m. lit ''**'' @ entry_role m @ lit '':** '' @ entry_content m) hist)"

text \<open>
  The handler of \<open>session:destroy\<close>.  \<open>now1\<close> and \<open>now2\<close> are what the two
  evaluations of \<open>new Date().toISOString()\<close> give.
\<close>

definition session_destroy ::
  "env \<Rightarrow> 'h module_state \<Rightarrow> session_destroy_event \<Rightarrow> jsstring \<Rightarrow> jsstring \<Rightarrow> 'h world
    \<Rightarrow> unit result \<times> 'h module_state \<times> 'h world" where
  "session_destroy e s payload now1 now2 w =
     (case ctx s of
        None \<Rightarrow> (Threw TypeError, s, w)
      | Some h \<Rightarrow>
          (let cfg = getConfig h (host w) in
           if sessionArchive cfg \<noteq> Flag True \<and> js_String (sessionArchive cfg) \<noteq> lit ''true''
           then (Returned (), s, w)
           else
             (case client s of
                None \<Rightarrow> (Returned (), s, w)
              | Some cl \<Rightarrow>
                  if \<not> isConnected cl then (Returned (), s, w)
                  else
                    (let date = js_slice now1 0 10;
                         path = archive_path cfg date (session payload)
                     in case write_note e cl path
                               (archive_document (session payload) now2 (history payload)) w of
                          (Returned _, cl1, w1) \<Rightarrow>
                            (Returned (), s\<lparr>client := Some cl1\<rparr>,
                             log_to (ctx s) Info (lit ''Session archived to vault: '' @ path) w1)
                        | (Threw error, cl1, w1) \<Rightarrow>
                            (Returned (), s\<lparr>client := Some cl1\<rparr>,
                             log_to (ctx s) Warn
                               (lit ''Failed to archive session: '' @ error_message error) w1)))))"

subsection \<open>The extension\<close>

definition extension_search ::
  "env \<Rightarrow> 'h module_state \<Rightarrow> jsstring \<Rightarrow> int option \<Rightarrow> 'h world
    \<Rightarrow> obsidian_search_result list result \<times> 'h module_state \<times> 'h world" where
  "extension_search e s query limit w =
     (case client s of
        None \<Rightarrow> (Threw TypeError, s, w)
      | Some cl \<Rightarrow>
          (case search e cl query 200 w of
             (Returned r, cl1, w1) \<Rightarrow>
               (Returned (js_slice r 0 (case limit of None \<Rightarrow> 10 | Some l \<Rightarrow> l)),
                s\<lparr>client := Some cl1\<rparr>, w1)
           | (Threw x, cl1, w1) \<Rightarrow> (Threw x, s\<lparr>client := Some cl1\<rparr>, w1)))"

definition extension_isConnected :: "'h module_state \<Rightarrow> bool" where
  "extension_isConnected s = (case client s of None \<Rightarrow> False | Some cl \<Rightarrow> isConnected cl)"

subsection \<open>shutdown\<close>

text \<open>The loop over \<open>cleanups\<close>: each call in its own \<open>try\<close>, the failure ignored.\<close>

fun run_cleanups :: "('h \<Rightarrow> unit result \<times> 'h) list \<Rightarrow> 'h world \<Rightarrow> 'h world" where
  "run_cleanups [] w = w"
| "run_cleanups (cleanup # rest) w = run_cleanups rest (w\<lparr>host := snd (cleanup (host w))\<rparr>)"

definition shutdown ::
  "'h module_state \<Rightarrow> 'h world \<Rightarrow> unit result \<times> 'h module_state \<times> 'h world" where
  "shutdown s w =
     (let (s1, w1) = (case healthTimer s of
                        Some t \<Rightarrow> (s\<lparr>healthTimer := None\<rparr>, clearInterval t w)
                      | None \<Rightarrow> (s, w));
          w2 = run_cleanups (cleanups s1) w1;
          s2 = s1\<lparr>cleanups := []\<rparr>
      in case optional_call (ctx s2) unregisterConfigSchema (lit ''wopr-plugin-obsidian'') w2 of
           (Threw x, w3) \<Rightarrow> (Threw x, s2, w3)
         | (Returned _, w3) \<Rightarrow>
             (case optional_call (ctx s2) unregisterContextProvider (lit ''obsidian'') w3 of
                (Threw x, w4) \<Rightarrow> (Threw x, s2, w4)
              | (Returned _, w4) \<Rightarrow>
                  (case optional_call (ctx s2) unregisterExtension (lit ''obsidian'') w4 of
                     (Threw x, w5) \<Rightarrow> (Threw x, s2, w5)
                   | (Returned _, w5) \<Rightarrow> (Returned (), s2\<lparr>client := None, ctx := None\<rparr>, w5))))"

section \<open>A concrete host, server and running state\<close>

text \<open>
  A host that keeps its configuration, its log and three registries; a vault server
  that answers every request with status 200, two search results and a one-word note;
  and the module state as \<open>init\<close> leaves it.  The theorems below are instantiated
  at these.
\<close>

record demo_host =
  dh_config :: obsidian_config
  dh_lines :: "(level \<times> jsstring) list"
  dh_schemas :: "jsstring list"
  dh_providers :: "jsstring list"
  dh_extensions :: "jsstring list"
  dh_subscribed :: "jsstring list"

definition demo_config :: obsidian_config where
  "demo_config =
     \<lparr>apiKey = Some (lit ''key''), port = None, vaultPath = None,
      injectContext = Some (lit ''always''), maxContextNotes = None,
      sessionArchive = Text (lit ''true'')\<rparr>"

definition demo_context :: "demo_host host_context" where
  "demo_context =
     \<lparr>getConfig = dh_config,
      ctx_log = (\<lambda>lv msg h. h\<lparr>dh_lines := dh_lines h @ [(lv, msg)]\<rparr>),
      unregisterConfigSchema =
        (\<lambda>name h. (Returned (), h\<lparr>dh_schemas := removeAll name (dh_schemas h)\<rparr>)),
      unregisterContextProvider =
        (\<lambda>name h. (Returned (), h\<lparr>dh_providers := removeAll name (dh_providers h)\<rparr>)),
      unregisterExtension =
        (\<lambda>name h. (Returned (), h\<lparr>dh_extensions := removeAll name (dh_extensions h)\<rparr>))\<rparr>"

text \<open>The same host, its registry of configuration schemas refusing the removal.\<close>

definition failing_context :: "demo_host host_context" where
  "failing_context =
     demo_context\<lparr>unregisterConfigSchema :=
       (\<lambda>name h. (Threw (JsError (lit ''registry closed'')), h))\<rparr>"

definition unsubscribe :: "jsstring \<Rightarrow> demo_host \<Rightarrow> unit result \<times> demo_host" where
  "unsubscribe name h = (Returned (), h\<lparr>dh_subscribed := removeAll name (dh_subscribed h)\<rparr>)"

text \<open>An unsubscribe closure that removes its subscription and then throws.\<close>

definition unsubscribe_throwing :: "jsstring \<Rightarrow> demo_host \<Rightarrow> unit result \<times> demo_host" where
  "unsubscribe_throwing name h =
     (Threw (JsError (lit ''already closed'')),
      h\<lparr>dh_subscribed := removeAll name (dh_subscribed h)\<rparr>)"

definition demo_host :: demo_host where
  "demo_host =
     \<lparr>dh_config = demo_config, dh_lines = [],
      dh_schemas = [lit ''wopr-plugin-obsidian''],
      dh_providers = [lit ''obsidian''],
      dh_extensions = [lit ''obsidian''],
      dh_subscribed = [lit ''memory:search'', lit ''session:destroy'']\<rparr>"

definition demo_world :: "demo_host world" where
  "demo_world = \<lparr>requests = [], timers = [1], host = demo_host\<rparr>"

definition demo_client :: client where
  "demo_client = (new_ObsidianClient 27123 (lit ''key''))\<lparr>connected := True\<rparr>"

definition demo_state :: "demo_host module_state" where
  "demo_state =
     \<lparr>ctx = Some demo_context, client = Some demo_client, healthTimer = Some 1,
      cleanups = [unsubscribe_throwing (lit ''memory:search''),
                  unsubscribe (lit ''session:destroy'')]\<rparr>"

definition failing_state :: "demo_host module_state" where
  "failing_state = demo_state\<lparr>ctx := Some failing_context\<rparr>"

definition result_a :: obsidian_search_result where
  "result_a =
     \<lparr>filename = lit ''Notes/A.md'', score = 2,
      matches = [\<lparr>match_span = \<lparr>span_start = 0, span_end = 3\<rparr>,
                  match_context = lit ''foo context''\<rparr>]\<rparr>"

definition result_b :: obsidian_search_result where
  "result_b = \<lparr>filename = lit ''Notes/B.md'', score = 1, matches = []\<rparr>"

definition demo_note :: obsidian_note where
  "demo_note =
     \<lparr>note_path = lit ''Notes/A.md'', note_content = lit ''hello'',
      note_stat = \<lparr>ctime = 0, mtime = 0, size = 5\<rparr>\<rparr>"

definition demo_env :: env where
  "demo_env =
     \<lparr>encodeURIComponent = Returned,
      url_href =
        (\<lambda>s ps. Returned (s @ lit ''?'' @ join (lit ''&'') (map (\<lambda>(k, v). k @ lit ''='' @ v) ps))),
      stringify = (\<lambda>d. case d of JArray xs \<Rightarrow> dec (length xs) | _ \<Rightarrow> lit ''{}''),
      reply_plain = (\<lambda>seen rq. Returned \<lparr>status = 200, statusText = lit ''OK'', json = Returned ()\<rparr>),
      reply_note =
        (\<lambda>seen rq. Returned \<lparr>status = 200, statusText = lit ''OK'', json = Returned demo_note\<rparr>),
      reply_search =
        (\<lambda>seen rq. Returned \<lparr>status = 200, statusText = lit ''OK'',
                                json = Returned [result_a, result_b]\<rparr>),
      reply_list =
        (\<lambda>seen rq. Returned \<lparr>status = 200, statusText = lit ''OK'',
                                json = Returned \<lparr>files = None\<rparr>\<rparr>)\<rparr>"

text \<open>The same platform with the vault server unreachable: every fetch rejects.\<close>

definition unreachable :: thrown where
  "unreachable = JsError (lit ''fetch failed'')"

definition down_env :: env where
  "down_env =
     demo_env\<lparr>reply_plain := (\<lambda>seen rq. Threw unreachable),
              reply_note := (\<lambda>seen rq. Threw unreachable),
              reply_search := (\<lambda>seen rq. Threw unreachable),
              reply_list := (\<lambda>seen rq. Threw unreachable)\<rparr>"

text \<open>
  The same platform with an \<open>encodeURIComponent\<close> that rejects a string holding a
  lone surrogate, as the built-in does (and, like the one above, escapes nothing).
  \<open>isWellFormed\<close> is \<open>String.prototype.isWellFormed\<close>.
\<close>

fun isWellFormed :: "jsstring \<Rightarrow> bool" where
  "isWellFormed [] = True"
| "isWellFormed [u] = (u < 0xD800 \<or> 0xDFFF < u)"
| "isWellFormed (u # v # us) =
     (if 0xD800 \<le> u \<and> u \<le> 0xDBFF then 0xDC00 \<le> v \<and> v \<le> 0xDFFF \<and> isWellFormed us
      else (u < 0xDC00 \<or> 0xDFFF < u) \<and> isWellFormed (v # us))"

definition strict_env :: env where
  "strict_env =
     demo_env\<lparr>encodeURIComponent :=
       (\<lambda>s. if isWellFormed s then Returned s else Threw (JsError (lit ''URI malformed'')))\<rparr>"

text \<open>
  A host whose registry of context providers is busy once: the first removal throws and
  leaves a line in the log, a later one succeeds.
\<close>

definition flaky_context :: "demo_host host_context" where
  "flaky_context =
     demo_context\<lparr>unregisterContextProvider :=
       (\<lambda>name h.
          if dh_lines h = []
          then (Threw (JsError (lit ''registry busy'')),
                h\<lparr>dh_lines := [(Warn, lit ''registry busy'')]\<rparr>)
          else (Returned (), h\<lparr>dh_providers := removeAll name (dh_providers h)\<rparr>))\<rparr>"

definition flaky_state :: "demo_host module_state" where
  "flaky_state = demo_state\<lparr>ctx := Some flaky_context\<rparr>"

section \<open>Properties of the client\<close>

lemma read_this: "fst (snd (read e this p w)) = this"
  by (simp add: read_def split: result.split prod.split)

lemma write_this: "fst (snd (write_note e this p c w)) = this"
  by (simp add: write_note_def split: result.split prod.split)

lemma append_this: "fst (snd (append_note e this p c w)) = this"
  by (simp add: append_note_def split: result.split prod.split)

lemma search_this: "fst (snd (search e this q n w)) = this"
  by (simp add: search_def split: result.split prod.split)

lemma list_this: "fst (snd (list_folder e this f w)) = this"
  by (simp add: list_folder_def split: result.split prod.split)

text \<open>
  Claim C7.  \<open>ping\<close> never throws: whatever the liveness request does, \<open>ping\<close>
  returns a boolean and leaves the connected flag equal to it, and that boolean is true
  exactly when the request to the server root is answered with a status in 200..299; a
  rejected fetch and any other status give false.
\<close>

theorem ping_never_throws:
  "\<exists>b this' w'.
     ping e this w = (Returned b, this', w')
     \<and> connected this' = b
     \<and> (b \<longleftrightarrow> (\<exists>res. reply_plain e (requests w)
                        \<lparr>req_url = baseUrl this @ lit ''/'', req_method = GET,
                         req_headers = headers this, req_body = None\<rparr> = Returned res
                      \<and> 200 \<le> status res \<and> status res \<le> 299))"
  by (cases "reply_plain e (requests w)
               \<lparr>req_url = baseUrl this @ lit ''/'', req_method = GET,
                req_headers = headers this, req_body = None\<rparr>")
     (auto simp add: ping_def fetch_def res_ok_def Let_def)

text \<open>
  Claim C8.  Only \<open>ping\<close> assigns the connected flag: after \<open>read\<close>, \<open>write\<close>,
  \<open>append\<close>, \<open>search\<close> and \<open>list\<close>, on success and on failure alike, the flag has
  the value it had before the call.
\<close>

theorem connected_only_by_ping:
  "connected (fst (snd (read e this p w))) = connected this
   \<and> connected (fst (snd (write_note e this p c w))) = connected this
   \<and> connected (fst (snd (append_note e this p c w))) = connected this
   \<and> connected (fst (snd (search e this q n w))) = connected this
   \<and> connected (fst (snd (list_folder e this f w))) = connected this"
  by (simp only: read_this write_this append_this search_this list_this)

section \<open>Properties of the built-ins\<close>

text \<open>\<open>join\<close> puts the separator before every element but the first.\<close>

lemma join_nonempty:
  "xs \<noteq> [] \<Longrightarrow> join sep xs = hd xs @ concat (map (\<lambda>x. sep @ x) (tl xs))"
  by (induction sep xs rule: join.induct) simp_all

lemma slice0_nonneg: "0 \<le> n \<Longrightarrow> js_slice xs 0 n = take (nat n) xs"
  by (simp add: js_slice_def Let_def min_def)

section \<open>Properties of the tool actions\<close>

text \<open>
  Claim C6.  Each of the five tool actions, given an argument object, returns an
  envelope and never throws: when the client call fails, the envelope carries the
  error flag and the failure's message (the \<open>message\<close> of an \<open>Error\<close>, the string
  form of any other thrown value); when it succeeds, the envelope carries the serialised
  payload and no error flag.  The list action does so for a missing argument
  as well.
\<close>

theorem tool_handlers_never_throw:
  "(\<exists>r cl' w'. search_handler e cl (Some sa) w = (Returned r, cl', w')
      \<and> r = (case fst (search e cl (sa_query sa) 200 w) of
               Threw x \<Rightarrow> \<lparr>content_text = (case x of JsError m \<Rightarrow> m | JsValue v \<Rightarrow> v),
                          isError = Some True\<rparr>
             | Returned rs \<Rightarrow>
                 \<lparr>content_text =
                    stringify e (JArray (map
                      (\<lambda>r. JObject
                         [(lit ''path'', JString (filename r)),
                          (lit ''score'', JNumber (score r)),
                          (lit ''context'',
                             JString (case matches r of [] \<Rightarrow> [] | m # _ \<Rightarrow> match_context m))])
                      (js_slice rs 0 (case sa_limit sa of None \<Rightarrow> 5 | Some l \<Rightarrow> l)))),
                  isError = None\<rparr>))
   \<and> (\<exists>r cl' w'. read_handler e cl (Some ra) w = (Returned r, cl', w')
      \<and> r = (case fst (read e cl (ra_path ra) w) of
               Threw x \<Rightarrow> \<lparr>content_text = (case x of JsError m \<Rightarrow> m | JsValue v \<Rightarrow> v),
                          isError = Some True\<rparr>
             | Returned note \<Rightarrow>
                 \<lparr>content_text =
                    stringify e (JObject [(lit ''path'', JString (note_path note)),
                                          (lit ''content'', JString (note_content note))]),
                  isError = None\<rparr>))
   \<and> (\<exists>r cl' w'. write_handler e cl (Some wa) w = (Returned r, cl', w')
      \<and> r = (case fst (write_note e cl (wa_path wa) (wa_content wa) w) of
               Threw x \<Rightarrow> \<lparr>content_text = (case x of JsError m \<Rightarrow> m | JsValue v \<Rightarrow> v),
                          isError = Some True\<rparr>
             | Returned _ \<Rightarrow>
                 \<lparr>content_text =
                    stringify e (JObject [(lit ''success'', JBoolean True),
                                          (lit ''path'', JString (wa_path wa))]),
                  isError = None\<rparr>))
   \<and> (\<exists>r cl' w'. append_handler e cl (Some wa) w = (Returned r, cl', w')
      \<and> r = (case fst (append_note e cl (wa_path wa) (wa_content wa) w) of
               Threw x \<Rightarrow> \<lparr>content_text = (case x of JsError m \<Rightarrow> m | JsValue v \<Rightarrow> v),
                          isError = Some True\<rparr>
             | Returned _ \<Rightarrow>
                 \<lparr>content_text =
                    stringify e (JObject [(lit ''success'', JBoolean True),
                                          (lit ''path'', JString (wa_path wa))]),
                  isError = None\<rparr>))
   \<and> (\<exists>r cl' w' folder. list_handler e cl la w = (Returned r, cl', w')
      \<and> folder = (case la of None \<Rightarrow> []
                   | Some a \<Rightarrow> (case la_folder a of None \<Rightarrow> [] | Some f \<Rightarrow> f))
      \<and> r = (case fst (list_folder e cl folder w) of
               Threw x \<Rightarrow> \<lparr>content_text = (case x of JsError m \<Rightarrow> m | JsValue v \<Rightarrow> v),
                          isError = Some True\<rparr>
             | Returned fs \<Rightarrow>
                 \<lparr>content_text =
                    stringify e (JObject [(lit ''folder'', JString folder),
                                          (lit ''files'', JArray (map JString fs))]),
                  isError = None\<rparr>))"
proof (intro conjI)
  have item: "search_item =
                (\<lambda>r. JObject
                   [(lit ''path'', JString (filename r)),
                    (lit ''score'', JNumber (score r)),
                    (lit ''context'',
                       JString (case matches r of [] \<Rightarrow> [] | m # _ \<Rightarrow> match_context m))])"
    by (rule ext) (simp add: search_item_def)
  show "\<exists>r cl' w'. search_handler e cl (Some sa) w = (Returned r, cl', w')
      \<and> r = (case fst (search e cl (sa_query sa) 200 w) of
               Threw x \<Rightarrow> \<lparr>content_text = (case x of JsError m \<Rightarrow> m | JsValue v \<Rightarrow> v),
                          isError = Some True\<rparr>
             | Returned rs \<Rightarrow>
                 \<lparr>content_text =
                    stringify e (JArray (map
                      (\<lambda>r. JObject
                         [(lit ''path'', JString (filename r)),
                          (lit ''score'', JNumber (score r)),
                          (lit ''context'',
                             JString (case matches r of [] \<Rightarrow> [] | m # _ \<Rightarrow> match_context m))])
                      (js_slice rs 0 (case sa_limit sa of None \<Rightarrow> 5 | Some l \<Rightarrow> l)))),
                  isError = None\<rparr>)"
    by (cases "search e cl (sa_query sa) 200 w")
       (simp add: search_handler_def ok_def err_def error_message_def Let_def item
          split: result.split)
  show "\<exists>r cl' w'. read_handler e cl (Some ra) w = (Returned r, cl', w')
      \<and> r = (case fst (read e cl (ra_path ra) w) of
               Threw x \<Rightarrow> \<lparr>content_text = (case x of JsError m \<Rightarrow> m | JsValue v \<Rightarrow> v),
                          isError = Some True\<rparr>
             | Returned note \<Rightarrow>
                 \<lparr>content_text =
                    stringify e (JObject [(lit ''path'', JString (note_path note)),
                                          (lit ''content'', JString (note_content note))]),
                  isError = None\<rparr>)"
    by (cases "read e cl (ra_path ra) w")
       (simp add: read_handler_def ok_def err_def error_message_def split: result.split)
  show "\<exists>r cl' w'. write_handler e cl (Some wa) w = (Returned r, cl', w')
      \<and> r = (case fst (write_note e cl (wa_path wa) (wa_content wa) w) of
               Threw x \<Rightarrow> \<lparr>content_text = (case x of JsError m \<Rightarrow> m | JsValue v \<Rightarrow> v),
                          isError = Some True\<rparr>
             | Returned _ \<Rightarrow>
                 \<lparr>content_text =
                    stringify e (JObject [(lit ''success'', JBoolean True),
                                          (lit ''path'', JString (wa_path wa))]),
                  isError = None\<rparr>)"
    by (cases "write_note e cl (wa_path wa) (wa_content wa) w")
       (simp add: write_handler_def ok_def err_def error_message_def split: result.split)
  show "\<exists>r cl' w'. append_handler e cl (Some wa) w = (Returned r, cl', w')
      \<and> r = (case fst (append_note e cl (wa_path wa) (wa_content wa) w) of
               Threw x \<Rightarrow> \<lparr>content_text = (case x of JsError m \<Rightarrow> m | JsValue v \<Rightarrow> v),
                          isError = Some True\<rparr>
             | Returned _ \<Rightarrow>
                 \<lparr>content_text =
                    stringify e (JObject [(lit ''success'', JBoolean True),
                                          (lit ''path'', JString (wa_path wa))]),
                  isError = None\<rparr>)"
    by (cases "append_note e cl (wa_path wa) (wa_content wa) w")
       (simp add: append_handler_def ok_def err_def error_message_def split: result.split)
  show "\<exists>r cl' w' folder. list_handler e cl la w = (Returned r, cl', w')
      \<and> folder = (case la of None \<Rightarrow> []
                   | Some a \<Rightarrow> (case la_folder a of None \<Rightarrow> [] | Some f \<Rightarrow> f))
      \<and> r = (case fst (list_folder e cl folder w) of
               Threw x \<Rightarrow> \<lparr>content_text = (case x of JsError m \<Rightarrow> m | JsValue v \<Rightarrow> v),
                          isError = Some True\<rparr>
             | Returned fs \<Rightarrow>
                 \<lparr>content_text =
                    stringify e (JObject [(lit ''folder'', JString folder),
                                          (lit ''files'', JArray (map JString fs))]),
                  isError = None\<rparr>)"
    by (cases "list_folder e cl (case la of None \<Rightarrow> []
                   | Some a \<Rightarrow> (case la_folder a of None \<Rightarrow> [] | Some f \<Rightarrow> f)) w")
       (simp add: list_handler_def ok_def err_def error_message_def Let_def split: result.split)
qed

text \<open>
  Claim C9, as stated, at a negative limit: the server returns two results and the caller
  asks for a limit of -1; \<open>slice(0, -1)\<close> drops the last result and the action returns
  one item, which is more than the limit.
\<close>

theorem search_handler_negative_limit:
  "fst (search_handler demo_env demo_client
          (Some \<lparr>sa_query = lit ''foo'', sa_limit = Some (- 1)\<rparr>) demo_world) =
     Returned (ok demo_env (JArray [search_item result_a]))
   \<and> \<not> int (length [search_item result_a]) \<le> - 1"
  by (simp add: search_handler_def search_def fetch_def demo_env_def res_ok_def js_slice_def)

text \<open>
  Claim C9, amended.  For every query, every sequence of results that the client's
  search returns and every non-negative limit (5 when the caller omits it), the search
  action returns the first \<open>limit\<close> results, so at most \<open>limit\<close> of them, in the
  order the server gave, each as its filename, its score and the context of its first
  match, the empty string when it has no match.
\<close>

theorem search_handler_limit:
  assumes "fst (search e cl (sa_query sa) 200 w) = Returned rs"
    and "limit = (case sa_limit sa of None \<Rightarrow> 5 | Some l \<Rightarrow> l)"
    and "0 \<le> limit"
  shows "fst (search_handler e cl (Some sa) w) =
           Returned (ok e (JArray (map
             (\<lambda>r. JObject [(lit ''path'', JString (filename r)),
                            (lit ''score'', JNumber (score r)),
                            (lit ''context'',
                               JString (case matches r of [] \<Rightarrow> [] | m # _ \<Rightarrow> match_context m))])
             (take (nat limit) rs))))
         \<and> int (length (take (nat limit) rs)) \<le> limit"
proof -
  obtain r cl' w' where s: "search e cl (sa_query sa) 200 w = (r, cl', w')"
    by (cases "search e cl (sa_query sa) 200 w")
  with assms(1) have r: "r = Returned rs" by simp
  have item: "search_item = (\<lambda>r. JObject [(lit ''path'', JString (filename r)),
                            (lit ''score'', JNumber (score r)),
                            (lit ''context'',
                               JString (case matches r of [] \<Rightarrow> [] | m # _ \<Rightarrow> match_context m))])"
    by (rule ext) (simp add: search_item_def)
  have "fst (search_handler e cl (Some sa) w) =
          Returned (ok e (JArray (map search_item (js_slice rs 0 limit))))"
    using s r assms(2) by (simp add: search_handler_def Let_def)
  moreover have "js_slice rs 0 limit = take (nat limit) rs"
    using assms(3) by (rule slice0_nonneg)
  moreover have "int (length (take (nat limit) rs)) \<le> limit"
    using assms(3) by simp
  ultimately show ?thesis by (simp add: item)
qed

theorem search_handler_limit_witness:
  "fst (search_handler demo_env demo_client
          (Some \<lparr>sa_query = lit ''foo'', sa_limit = Some 1\<rparr>) demo_world) =
     Returned (ok demo_env (JArray
       [JObject [(lit ''path'', JString (lit ''Notes/A.md'')),
                 (lit ''score'', JNumber 2),
                 (lit ''context'', JString (lit ''foo context''))]]))"
proof -
  have a: "fst (search demo_env demo_client
                  (sa_query \<lparr>sa_query = lit ''foo'', sa_limit = Some 1\<rparr>) 200 demo_world) =
             Returned [result_a, result_b]"
    by (simp add: search_def fetch_def demo_env_def res_ok_def)
  have b: "(1::int) = (case sa_limit \<lparr>sa_query = lit ''foo'', sa_limit = Some (1::int)\<rparr> of
                         None \<Rightarrow> 5 | Some l \<Rightarrow> l)"
    by simp
  have c: "(0::int) \<le> 1" by simp
  show ?thesis
    using search_handler_limit [OF a b c] by (simp add: result_a_def)
qed

section \<open>Properties of the extension\<close>

text \<open>
  Claim C10, as stated, at a negative limit: with two results from the client and a limit
  of -1 the extension's search returns one result.
\<close>

theorem extension_search_negative_limit:
  "fst (extension_search demo_env demo_state (lit ''foo'') (Some (- 1)) demo_world) =
     Returned [result_a]
   \<and> \<not> int (length [result_a]) \<le> - 1"
  by (simp add: extension_search_def demo_state_def search_def fetch_def demo_env_def
        res_ok_def js_slice_def)

text \<open>
  Claim C10, amended.  The extension's search takes the limit to be 10 when the caller
  omits it, and for every query and every non-negative limit returns the first
  \<open>limit\<close> results of the client's search, in the client's order; \<open>isConnected\<close>
  returns false, and does not fail, once the client reference is released.
\<close>

theorem extension_search_limit:
  assumes "client s = Some cl"
    and "fst (search e cl q 200 w) = Returned rs"
    and "limit = (case given of None \<Rightarrow> 10 | Some l \<Rightarrow> l)"
    and "0 \<le> limit"
  shows "fst (extension_search e s q given w) = Returned (take (nat limit) rs)
         \<and> int (length (take (nat limit) rs)) \<le> limit
         \<and> extension_isConnected (s\<lparr>client := None\<rparr>) = False"
proof -
  obtain r cl' w' where s: "search e cl q 200 w = (r, cl', w')"
    by (cases "search e cl q 200 w")
  with assms(2) have r: "r = Returned rs" by simp
  have "fst (extension_search e s q given w) = Returned (js_slice rs 0 limit)"
    using s r assms(1,3) by (simp add: extension_search_def)
  moreover have "js_slice rs 0 limit = take (nat limit) rs"
    using assms(4) by (rule slice0_nonneg)
  moreover have "int (length (take (nat limit) rs)) \<le> limit"
    using assms(4) by simp
  ultimately show ?thesis by (simp add: extension_isConnected_def)
qed

theorem extension_search_limit_witness:
  "fst (extension_search demo_env demo_state (lit ''foo'') None demo_world) =
     Returned [result_a, result_b]
   \<and> extension_isConnected (demo_state\<lparr>client := None\<rparr>) = False"
proof -
  have a: "client demo_state = Some demo_client" by (simp add: demo_state_def)
  have b: "fst (search demo_env demo_client (lit ''foo'') 200 demo_world) =
             Returned [result_a, result_b]"
    by (simp add: search_def fetch_def demo_env_def res_ok_def)
  have c: "(10::int) = (case None of None \<Rightarrow> 10 | Some l \<Rightarrow> l)" by simp
  have d: "(0::int) \<le> 10" by simp
  show ?thesis
    using extension_search_limit [OF a b c d] by simp
qed

section \<open>Properties of the context provider\<close>

text \<open>\<open>trim\<close> leaves nothing exactly of a string made of white space only.\<close>

lemma trim_empty_iff: "trim s = [] \<longleftrightarrow> (\<forall>u \<in> set s. is_ws u)"
proof
  assume "trim s = []"
  then have all: "\<forall>u \<in> set (dropWhile is_ws s). is_ws u"
    by (simp add: trim_def)
  have "dropWhile is_ws s = []"
  proof (rule ccontr)
    assume ne: "dropWhile is_ws s \<noteq> []"
    then have "\<not> is_ws (hd (dropWhile is_ws s))" by (rule hd_dropWhile)
    moreover have "hd (dropWhile is_ws s) \<in> set (dropWhile is_ws s)" using ne by simp
    ultimately show False using all by blast
  qed
  then show "\<forall>u \<in> set s. is_ws u" by (rule dropWhile_eq_Nil_conv [THEN iffD1])
next
  assume "\<forall>u \<in> set s. is_ws u"
  then have d: "dropWhile is_ws s = []" by (rule dropWhile_eq_Nil_conv [THEN iffD2])
  show "trim s = []" unfolding trim_def d by simp
qed

text \<open>
  Claim C1.  While the provider is registered (\<open>ctx\<close> and \<open>client\<close> are set), it
  returns null, and does not throw, whenever the live configuration's injection mode is
  not "always", or the client's connected flag is false, or the message content is
  absent, empty or white space only, or the vault search throws.
\<close>

theorem getContext_no_context:
  assumes "ctx s = Some h" and "client s = Some cl"
    and "injectContext (getConfig h (host w)) \<noteq> Some (lit ''always'')
         \<or> \<not> connected cl
         \<or> msg_content m = None
         \<or> (\<exists>q. msg_content m = Some q \<and> (\<forall>u \<in> set q. is_ws u))
         \<or> (\<exists>q x. msg_content m = Some q \<and> fst (search e cl q 200 w) = Threw x)"
  shows "fst (getContext e s sid m w) = Returned None"
proof -
  consider (mode) "injectContext (getConfig h (host w)) \<noteq> Some (lit ''always'')"
    | (off) "\<not> connected cl"
    | (absent) "msg_content m = None"
    | (blank) q where "msg_content m = Some q" "\<forall>u \<in> set q. is_ws u"
    | (fails) q x where "msg_content m = Some q" "fst (search e cl q 200 w) = Threw x"
    using assms(3) by auto
  then show ?thesis
  proof cases
    case mode
    then show ?thesis using assms(1) by (simp add: getContext_def Let_def)
  next
    case off
    then show ?thesis using assms(1,2) by (simp add: getContext_def isConnected_def Let_def)
  next
    case absent
    then show ?thesis using assms(1,2) by (simp add: getContext_def Let_def)
  next
    case blank
    then have "trim q = []" by (simp add: trim_empty_iff)
    then show ?thesis using assms(1,2) blank(1) by (simp add: getContext_def Let_def)
  next
    case fails
    obtain r cl1 w1 where sr: "search e cl q 200 w = (r, cl1, w1)"
      by (cases "search e cl q 200 w")
    with fails(2) have "r = Threw x" by simp
    then show ?thesis using assms(1,2) fails(1) sr by (simp add: getContext_def Let_def)
  qed
qed

theorem getContext_no_context_witness:
  "fst (getContext down_env demo_state (lit ''s1'')
          \<lparr>msg_content = Some (lit ''meeting notes'')\<rparr> demo_world) = Returned None"
proof -
  have a: "ctx demo_state = Some demo_context" by (simp add: demo_state_def)
  have b: "client demo_state = Some demo_client" by (simp add: demo_state_def)
  have "fst (search down_env demo_client (lit ''meeting notes'') 200 demo_world) =
          Threw unreachable"
    by (simp add: search_def fetch_def down_env_def demo_env_def)
  then have c: "injectContext (getConfig demo_context (host demo_world)) \<noteq> Some (lit ''always'')
         \<or> \<not> connected demo_client
         \<or> msg_content \<lparr>msg_content = Some (lit ''meeting notes'')\<rparr> = None
         \<or> (\<exists>q. msg_content \<lparr>msg_content = Some (lit ''meeting notes'')\<rparr> = Some q
                \<and> (\<forall>u \<in> set q. is_ws u))
         \<or> (\<exists>q x. msg_content \<lparr>msg_content = Some (lit ''meeting notes'')\<rparr> = Some q
                \<and> fst (search down_env demo_client q 200 demo_world) = Threw x)"
    by simp
  show ?thesis by (rule getContext_no_context [OF a b c])
qed

lemma note_section_client: "fst (snd (note_section e cl r w)) = cl"
proof -
  obtain x cl' w' where rd: "read e cl (filename r) w = (x, cl', w')"
    by (cases "read e cl (filename r) w")
  with read_this [of e cl "filename r" w] have "cl' = cl" by simp
  with rd show ?thesis by (cases x) (simp_all add: note_section_def)
qed

lemma note_section_text:
  "fst (note_section e cl r w) =
     (case fst (read e cl (filename r) w) of
        Returned note \<Rightarrow> heading r @ take 2000 (note_content note)
      | Threw _ \<Rightarrow> heading r @ could_not_read)"
proof -
  obtain x cl' w' where rd: "read e cl (filename r) w = (x, cl', w')"
    by (cases "read e cl (filename r) w")
  have "js_slice xs 0 2000 = take 2000 xs" for xs :: jsstring
    using slice0_nonneg [of 2000 xs] by simp
  with rd show ?thesis by (cases x) (simp_all add: note_section_def)
qed

lemma read_notes_length: "length (fst (read_notes e cl rs w)) = length rs"
proof (induction rs arbitrary: cl w)
  case Nil
  show ?case by simp
next
  case (Cons r rs)
  obtain n cl1 w1 where ns: "note_section e cl r w = (n, cl1, w1)"
    by (cases "note_section e cl r w")
  obtain ms cl2 w2 where rn: "read_notes e cl1 rs w1 = (ms, cl2, w2)"
    by (cases "read_notes e cl1 rs w1")
  with Cons.IH [of cl1 w1] have "length ms = length rs" by simp
  with ns rn show ?case by simp
qed

lemma note_section_world:
  "snd (snd (note_section e cl r w)) = snd (snd (read e cl (filename r) w))"
proof -
  obtain x cl' w' where rd: "read e cl (filename r) w = (x, cl', w')"
    by (cases "read e cl (filename r) w")
  then show ?thesis by (cases x) (simp_all add: note_section_def)
qed

lemma read_notes_client: "fst (snd (read_notes e cl rs w)) = cl"
proof (induction rs arbitrary: w)
  case Nil
  show ?case by simp
next
  case (Cons r rs)
  obtain n cl1 w1 where ns: "note_section e cl r w = (n, cl1, w1)"
    by (cases "note_section e cl r w")
  with note_section_client [of e cl r w] have cl1: "cl1 = cl" by simp
  obtain ms cl2 w2 where rn: "read_notes e cl rs w1 = (ms, cl2, w2)"
    by (cases "read_notes e cl rs w1")
  with Cons.IH [of w1] have "cl2 = cl" by simp
  with ns cl1 rn show ?case by simp
qed

text \<open>
  The worlds of the run: each section is read in the world that the reads before it
  left.
\<close>

lemma read_notes_chain:
  fixes w :: "'h world"
  shows "\<exists>ws :: 'h world list.
           length ws = Suc (length rs) \<and> ws ! 0 = w
           \<and> snd (snd (read_notes e cl rs w)) = ws ! length rs
           \<and> (\<forall>i < length rs.
                 fst (read_notes e cl rs w) ! i = fst (note_section e cl (rs ! i) (ws ! i))
                 \<and> ws ! Suc i = snd (snd (note_section e cl (rs ! i) (ws ! i))))"
proof (induction rs arbitrary: w)
  case Nil
  have "length [w] = Suc (length ([] :: obsidian_search_result list)) \<and> [w] ! 0 = w
        \<and> snd (snd (read_notes e cl [] w)) = [w] ! length ([] :: obsidian_search_result list)"
    by simp
  then show ?case by (intro exI [of _ "[w]"]) simp
next
  case (Cons r rs)
  obtain n cl1 w1 where ns: "note_section e cl r w = (n, cl1, w1)"
    by (cases "note_section e cl r w")
  with note_section_client [of e cl r w] have cl1: "cl1 = cl" by simp
  obtain ms cl2 w2 where rn: "read_notes e cl rs w1 = (ms, cl2, w2)"
    by (cases "read_notes e cl rs w1")
  from Cons.IH [of w1] rn obtain ws :: "'h world list"
    where len: "length ws = Suc (length rs)" and w0: "ws ! 0 = w1"
      and fin: "w2 = ws ! length rs"
      and step: "\<And>i. i < length rs \<Longrightarrow>
                   ms ! i = fst (note_section e cl (rs ! i) (ws ! i))
                   \<and> ws ! Suc i = snd (snd (note_section e cl (rs ! i) (ws ! i)))"
    by auto
  have all: "fst (read_notes e cl (r # rs) w) ! i
               = fst (note_section e cl ((r # rs) ! i) ((w # ws) ! i))
             \<and> (w # ws) ! Suc i
               = snd (snd (note_section e cl ((r # rs) ! i) ((w # ws) ! i)))"
    if "i < length (r # rs)" for i
  proof (cases i)
    case 0
    then show ?thesis using ns cl1 rn w0 by simp
  next
    case (Suc j)
    with that have "j < length rs" by simp
    from step [OF this] show ?thesis using ns cl1 rn Suc by simp
  qed
  have "length (w # ws) = Suc (length (r # rs)) \<and> (w # ws) ! 0 = w
        \<and> snd (snd (read_notes e cl (r # rs) w)) = (w # ws) ! length (r # rs)"
    using ns cl1 rn len fin by simp
  with all show ?case by (intro exI [of _ "w # ws"]) blast
qed

lemma client_unchanged: "client s = Some cl \<Longrightarrow> s\<lparr>client := Some cl\<rparr> = s"
  by (cases s) simp

lemma length_lit: "length (lit s) = length s"
  by (simp add: lit_def)

lemma trim_meeting_notes: "trim (lit ''meeting notes'') \<noteq> []"
  by (simp add: trim_def lit_def is_ws_def)

text \<open>
  Claim C2, as stated, at a negative maximum: with \<open>maxContextNotes\<close> set to -1 and
  two search results, \<open>slice(0, -1)\<close> keeps the first result and the provider emits a
  block of one section, which is more than the maximum.
\<close>

theorem context_block_negative_maximum:
  "fst (getContext demo_env demo_state (lit ''s1'')
          \<lparr>msg_content = Some (lit ''meeting notes'')\<rparr>
          (demo_world\<lparr>host := demo_host\<lparr>dh_config :=
             demo_config\<lparr>maxContextNotes := Some (- 1)\<rparr>\<rparr>\<rparr>)) =
     Returned (Some
       \<lparr>part_content = notes_header @ heading result_a @ lit ''hello'',
        part_role = lit ''system'',
        part_metadata = \<lparr>source = lit ''obsidian'', priority = 30, noteCount = 1\<rparr>\<rparr>)
   \<and> \<not> int 1 \<le> - 1"
  using trim_meeting_notes
  by (simp add: getContext_def demo_state_def demo_context_def demo_world_def demo_host_def
        demo_config_def demo_client_def new_ObsidianClient_def isConnected_def
        search_def read_def fetch_def demo_env_def res_ok_def js_slice_def note_section_def
        demo_note_def Let_def length_lit)

text \<open>
  Claim C2, amended.  With the mode "always", the client connected, a message that is
  not white space only, a search that succeeds with at least one result, and
  \<open>maxContextNotes\<close> (3 when unset) not negative: the provider produces context unless
  \<open>maxContextNotes\<close> is 0, and the block is a single part of role "system" whose
  content is the header line followed by the note sections joined by a horizontal rule.
  There is one section for each of the first \<open>maxContextNotes\<close> results, so at most
  that many, in the order of the results.  The reads are issued in that order from the
  world the search left, each in the world its predecessor left, and section \<open>i\<close> is
  the heading with the filename of result \<open>i\<close> followed by the first 2000 characters of
  the note its read returned, or by the placeholder when its read failed.
\<close>

theorem context_block:
  fixes w :: "'h world"
  assumes "ctx s = Some h" and "client s = Some cl"
    and "injectContext (getConfig h (host w)) = Some (lit ''always'')"
    and "connected cl"
    and "msg_content m = Some q" and "\<not> (\<forall>u \<in> set q. is_ws u)"
    and "search e cl q 200 w = (Returned rs, cl', w1)" and "rs \<noteq> []"
    and "n = (case maxContextNotes (getConfig h (host w)) of None \<Rightarrow> 3 | Some k \<Rightarrow> k)"
    and "0 \<le> n"
  shows "\<exists>sections (ws :: 'h world list).
           length sections = min (nat n) (length rs)
           \<and> int (length sections) \<le> n
           \<and> length ws = Suc (length sections)
           \<and> ws ! 0 = w1
           \<and> (\<forall>i < length sections.
                 sections ! i =
                   (case fst (read e cl (filename (rs ! i)) (ws ! i)) of
                      Returned note \<Rightarrow>
                        lit ''### '' @ filename (rs ! i) @ [0x0A] @ take 2000 (note_content note)
                    | Threw _ \<Rightarrow>
                        lit ''### '' @ filename (rs ! i) @ [0x0A] @ lit ''*(could not read)*'')
                 \<and> ws ! Suc i = snd (snd (read e cl (filename (rs ! i)) (ws ! i))))
           \<and> getContext e s sid m w =
               (Returned
                  (if n = 0 then None
                   else Some
                     \<lparr>part_content =
                        lit ''## Relevant notes from your Obsidian vault:'' @ [0x0A, 0x0A]
                        @ hd sections
                        @ concat (map (\<lambda>x. [0x0A, 0x0A] @ lit ''---'' @ [0x0A, 0x0A] @ x)
                                    (tl sections)),
                      part_role = lit ''system'',
                      part_metadata =
                        \<lparr>source = lit ''obsidian'', priority = 30,
                         noteCount = length sections\<rparr>\<rparr>),
                s, ws ! length sections)"
proof -
  let ?cfg = "getConfig h (host w)"
  let ?top = "take (nat n) rs"
  have cl': "cl' = cl" using search_this [of e cl q 200 w] assms(7) by simp
  have nonblank: "trim q \<noteq> []" using assms(6) by (simp add: trim_empty_iff)
  have top: "js_slice rs 0 n = ?top" using assms(10) by (rule slice0_nonneg)
  have same: "s\<lparr>client := Some cl\<rparr> = s" using assms(2) by (rule client_unchanged)
  obtain secs cl2 w2 where rn: "read_notes e cl ?top w1 = (secs, cl2, w2)"
    by (cases "read_notes e cl ?top w1")
  have cl2: "cl2 = cl" using read_notes_client [of e cl ?top w1] rn by simp
  have len: "length secs = length ?top"
    using read_notes_length [of e cl ?top w1] rn by simp
  from read_notes_chain [where rs = ?top and e = e and cl = cl and w = w1] rn obtain ws :: "'h world list"
    where wl: "length ws = Suc (length ?top)" and w0: "ws ! 0 = w1"
      and fin: "w2 = ws ! length ?top"
      and step: "\<And>i. i < length ?top \<Longrightarrow>
                   secs ! i = fst (note_section e cl (?top ! i) (ws ! i))
                   \<and> ws ! Suc i = snd (snd (note_section e cl (?top ! i) (ws ! i)))"
    by auto
  have each: "secs ! i =
                   (case fst (read e cl (filename (rs ! i)) (ws ! i)) of
                      Returned note \<Rightarrow>
                        lit ''### '' @ filename (rs ! i) @ [0x0A] @ take 2000 (note_content note)
                    | Threw _ \<Rightarrow>
                        lit ''### '' @ filename (rs ! i) @ [0x0A] @ lit ''*(could not read)*'')
              \<and> ws ! Suc i = snd (snd (read e cl (filename (rs ! i)) (ws ! i)))"
    if "i < length secs" for i
  proof -
    from that len have i: "i < length ?top" by simp
    then have nth: "?top ! i = rs ! i" by simp
    from step [OF i] show ?thesis
      unfolding nth
      by (simp add: note_section_text note_section_world heading_def could_not_read_def
            newline_def split: result.split)
  qed
  have out: "getContext e s sid m w =
               (Returned
                  (if n = 0 then None
                   else Some
                     \<lparr>part_content =
                        lit ''## Relevant notes from your Obsidian vault:'' @ [0x0A, 0x0A]
                        @ hd secs
                        @ concat (map (\<lambda>x. [0x0A, 0x0A] @ lit ''---'' @ [0x0A, 0x0A] @ x)
                                    (tl secs)),
                      part_role = lit ''system'',
                      part_metadata =
                        \<lparr>source = lit ''obsidian'', priority = 30,
                         noteCount = length secs\<rparr>\<rparr>),
                s, ws ! length secs)"
  proof (cases "n = 0")
    case True
    then have "?top = []" by simp
    moreover have "length secs = 0" using True len by simp
    then have "ws ! length secs = w1" using w0 by simp
    ultimately show ?thesis
      using True assms(1-5) nonblank assms(7) cl' top same assms(9) [symmetric]
      by (simp add: getContext_def isConnected_def Let_def)
  next
    case False
    with assms(8,10) have ne: "?top \<noteq> []" by (cases rs) auto
    have "ws ! length secs = w2" using fin len by simp
    moreover have "secs \<noteq> []"
    proof
      assume "secs = []"
      then have "length secs = 0" by simp
      then have "length ?top = 0" unfolding len .
      then have "?top = []" by (rule length_0_conv [THEN iffD1])
      with ne show False by (rule notE)
    qed
    then have "join rule_sep secs = hd secs @ concat (map (\<lambda>x. rule_sep @ x) (tl secs))"
      by (rule join_nonempty)
    ultimately show ?thesis
      using False ne assms(1-5) nonblank assms(7) cl' cl2 top same rn len assms(9) [symmetric]
      by (simp add: getContext_def isConnected_def Let_def notes_header_def rule_sep_def
            newline_def)
  qed
  have "length secs = min (nat n) (length rs)" using len by simp
  moreover have "int (length secs) \<le> n" using len assms(10) by simp
  moreover have "length ws = Suc (length secs)" using wl len by simp
  ultimately show ?thesis
    using w0 each out by (intro exI [of _ secs] exI [of _ ws]) blast
qed

theorem context_block_witness:
  "\<exists>sections (ws :: demo_host world list).
     length sections = min (nat 3) (length [result_a, result_b])
     \<and> int (length sections) \<le> 3
     \<and> length ws = Suc (length sections)
     \<and> ws ! 0 = snd (snd (search demo_env demo_client (lit ''meeting notes'') 200 demo_world))
     \<and> (\<forall>i < length sections.
           sections ! i =
             (case fst (read demo_env demo_client (filename ([result_a, result_b] ! i)) (ws ! i)) of
                Returned note \<Rightarrow>
                  lit ''### '' @ filename ([result_a, result_b] ! i) @ [0x0A]
                  @ take 2000 (note_content note)
              | Threw _ \<Rightarrow>
                  lit ''### '' @ filename ([result_a, result_b] ! i) @ [0x0A]
                  @ lit ''*(could not read)*'')
           \<and> ws ! Suc i =
               snd (snd (read demo_env demo_client (filename ([result_a, result_b] ! i)) (ws ! i))))
     \<and> getContext demo_env demo_state (lit ''s1'')
          \<lparr>msg_content = Some (lit ''meeting notes'')\<rparr> demo_world =
         (Returned
            (if (3::int) = 0 then None
             else Some
               \<lparr>part_content =
                  lit ''## Relevant notes from your Obsidian vault:'' @ [0x0A, 0x0A]
                  @ hd sections
                  @ concat (map (\<lambda>x. [0x0A, 0x0A] @ lit ''---'' @ [0x0A, 0x0A] @ x)
                              (tl sections)),
                part_role = lit ''system'',
                part_metadata =
                  \<lparr>source = lit ''obsidian'', priority = 30, noteCount = length sections\<rparr>\<rparr>),
          demo_state, ws ! length sections)"
proof -
  let ?cfg = "getConfig demo_context (host demo_world)"
  have cfg: "?cfg = demo_config"
    by (simp add: demo_context_def demo_world_def demo_host_def)
  have a: "ctx demo_state = Some demo_context" by (simp add: demo_state_def)
  have b: "client demo_state = Some demo_client" by (simp add: demo_state_def)
  have c: "injectContext ?cfg = Some (lit ''always'')"
    unfolding cfg by (simp add: demo_config_def)
  have d: "connected demo_client" by (simp add: demo_client_def)
  have e: "msg_content \<lparr>msg_content = Some (lit ''meeting notes'')\<rparr> = Some (lit ''meeting notes'')"
    by simp
  have f: "\<not> (\<forall>u \<in> set (lit ''meeting notes''). is_ws u)"
    using trim_meeting_notes trim_empty_iff [of "lit ''meeting notes''"] by blast
  have "fst (search demo_env demo_client (lit ''meeting notes'') 200 demo_world) =
          Returned [result_a, result_b]"
    by (simp add: search_def fetch_def demo_env_def res_ok_def)
  then have g: "search demo_env demo_client (lit ''meeting notes'') 200 demo_world =
          (Returned [result_a, result_b],
           fst (snd (search demo_env demo_client (lit ''meeting notes'') 200 demo_world)),
           snd (snd (search demo_env demo_client (lit ''meeting notes'') 200 demo_world)))"
    by (simp add: prod_eq_iff)
  have h: "[result_a, result_b] \<noteq> []" by simp
  have i: "(3::int) = (case maxContextNotes ?cfg of None \<Rightarrow> 3 | Some k \<Rightarrow> k)"
    unfolding cfg by (simp add: demo_config_def)
  have j: "(0::int) \<le> 3" by simp
  show ?thesis by (rule context_block [OF a b c d e f g h i j])
qed

section \<open>Properties of the session archive\<close>

lemma js_String_true:
  "js_String x = lit ''true'' \<longleftrightarrow> x = Flag True \<or> x = Text (lit ''true'')"
  by (cases x) (auto simp add: lit_def)

lemma write_note_request:
  assumes "encodeURIComponent e path = Returned p"
  shows "requests (snd (snd (write_note e cl path doc w))) =
           requests w @ [\<lparr>req_url = baseUrl cl @ lit ''/vault/'' @ p, req_method = PUT,
                          req_headers = AList.update (lit ''Content-Type'') (lit ''text/markdown'')
                                          (headers cl),
                          req_body = Some doc\<rparr>]"
  using assms by (simp add: write_note_def fetch_def split: result.split)

lemma encode_failure_no_request:
  assumes "encodeURIComponent e path = Threw x"
  shows "write_note e cl path doc w = (Threw x, cl, w)"
  using assms by (simp add: write_note_def)

lemma requests_log_to: "requests (log_to c lv msg w) = requests w"
  by (simp add: log_to_def split: option.split)

text \<open>
  Claim C3, as stated, at a session id that is a lone surrogate: the archive setting is
  "true" and the client is connected, but \<open>encodeURIComponent\<close> throws inside
  \<open>write\<close> before any request is made; the handler logs the failure and returns, and
  nothing is written.
\<close>

theorem session_archive_lone_surrogate:
  "sessionArchive (getConfig demo_context (host demo_world)) = Text (lit ''true'')
   \<and> client demo_state = Some demo_client
   \<and> connected demo_client
   \<and> fst (session_destroy strict_env demo_state \<lparr>session = [0xD800], history = []\<rparr>
         (lit ''2026-11-03T10:00:00.000Z'') (lit ''2026-11-03T10:00:00.001Z'') demo_world) =
       Returned ()
   \<and> requests (snd (snd (session_destroy strict_env demo_state
         \<lparr>session = [0xD800], history = []\<rparr>
         (lit ''2026-11-03T10:00:00.000Z'') (lit ''2026-11-03T10:00:00.001Z'') demo_world))) =
       requests demo_world"
  by (simp add: session_destroy_def demo_state_def demo_context_def demo_world_def
        demo_host_def demo_config_def demo_client_def new_ObsidianClient_def isConnected_def
        write_note_def strict_env_def demo_env_def archive_path_def log_to_def
        error_message_def js_slice_def lit_def Let_def)

text \<open>
  Claim C3, amended.  On a session-teardown event the handler issues a PUT for the path
  \<open><vaultFolder>/sessions/<date>-<sessionId>.md\<close> (the folder "WOPR" when unset, the
  date the first ten characters of the ISO timestamp), with the archive document as its
  body, if and only if the archive setting is true (the boolean or the string "true"),
  the client's connected flag is true and \<open>encodeURIComponent\<close> accepts the path.
  Unless the setting is true and the client connected, the module state and the world
  stay as they were; when only the encoding fails, no request is made.  In every case
  the handler returns.
\<close>

theorem session_archive_write:
  assumes "ctx s = Some h"
    and "cfg = getConfig h (host w)"
    and "path = (case vaultPath cfg of None \<Rightarrow> lit ''WOPR'' | Some v \<Rightarrow> v)
                @ lit ''/sessions/'' @ take 10 first_now @ lit ''-'' @ session payload
                @ lit ''.md''"
  shows "(\<not> ((sessionArchive cfg = Flag True \<or> sessionArchive cfg = Text (lit ''true''))
             \<and> (\<exists>cl. client s = Some cl \<and> connected cl))
          \<longrightarrow> session_destroy e s payload first_now second_now w = (Returned (), s, w))
       \<and> ((sessionArchive cfg = Flag True \<or> sessionArchive cfg = Text (lit ''true''))
           \<and> client s = Some cl \<and> connected cl
           \<and> encodeURIComponent e path = Returned p
          \<longrightarrow> fst (session_destroy e s payload first_now second_now w) = Returned ()
              \<and> requests (snd (snd (session_destroy e s payload first_now second_now w))) =
                  requests w @
                  [\<lparr>req_url = baseUrl cl @ lit ''/vault/'' @ p, req_method = PUT,
                    req_headers = AList.update (lit ''Content-Type'') (lit ''text/markdown'')
                                    (headers cl),
                    req_body =
                      Some (archive_document (session payload) second_now (history payload))\<rparr>])
       \<and> ((sessionArchive cfg = Flag True \<or> sessionArchive cfg = Text (lit ''true''))
           \<and> client s = Some cl \<and> connected cl
           \<and> encodeURIComponent e path = Threw x
          \<longrightarrow> fst (session_destroy e s payload first_now second_now w) = Returned ()
              \<and> requests (snd (snd (session_destroy e s payload first_now second_now w))) =
                  requests w)"
proof (intro conjI impI)
  assume off: "\<not> ((sessionArchive cfg = Flag True \<or> sessionArchive cfg = Text (lit ''true''))
             \<and> (\<exists>cl. client s = Some cl \<and> connected cl))"
  show "session_destroy e s payload first_now second_now w = (Returned (), s, w)"
  proof (cases "sessionArchive cfg = Flag True \<or> sessionArchive cfg = Text (lit ''true'')")
    case False
    then have "sessionArchive cfg \<noteq> Flag True \<and> js_String (sessionArchive cfg) \<noteq> lit ''true''"
      by (simp add: js_String_true)
    then show ?thesis using assms(1,2) by (simp add: session_destroy_def)
  next
    case True
    with off have "\<not> (\<exists>cl. client s = Some cl \<and> connected cl)" by simp
    then show ?thesis using assms(1,2) True
      by (cases "client s") (auto simp add: session_destroy_def isConnected_def js_String_true)
  qed
next
  let ?doc = "archive_document (session payload) second_now (history payload)"
  have date: "js_slice first_now 0 10 = take 10 first_now"
    using slice0_nonneg [of 10 first_now] by simp
  have path: "archive_path cfg (js_slice first_now 0 10) (session payload) = path"
    by (simp add: archive_path_def date assms(3))
  {
    assume on: "(sessionArchive cfg = Flag True \<or> sessionArchive cfg = Text (lit ''true''))
           \<and> client s = Some cl \<and> connected cl
           \<and> encodeURIComponent e path = Returned p"
    have go: "\<not> (sessionArchive cfg \<noteq> Flag True \<and> js_String (sessionArchive cfg) \<noteq> lit ''true'')"
      using on by (auto simp add: js_String_true)
    obtain r cl1 w1 where wr: "write_note e cl path ?doc w = (r, cl1, w1)"
      by (cases "write_note e cl path ?doc w")
    have rq: "requests w1 =
              requests w @ [\<lparr>req_url = baseUrl cl @ lit ''/vault/'' @ p, req_method = PUT,
                          req_headers = AList.update (lit ''Content-Type'') (lit ''text/markdown'')
                                          (headers cl),
                          req_body = Some ?doc\<rparr>]"
      using write_note_request [of e path p cl ?doc w] on wr by simp
    have "fst (session_destroy e s payload first_now second_now w) = Returned ()
          \<and> requests (snd (snd (session_destroy e s payload first_now second_now w))) = requests w1"
      using assms(1,2) on go wr path
      by (cases r) (auto simp add: session_destroy_def isConnected_def Let_def requests_log_to)
    then show "fst (session_destroy e s payload first_now second_now w) = Returned ()"
      and "requests (snd (snd (session_destroy e s payload first_now second_now w))) =
                  requests w @
                  [\<lparr>req_url = baseUrl cl @ lit ''/vault/'' @ p, req_method = PUT,
                    req_headers = AList.update (lit ''Content-Type'') (lit ''text/markdown'')
                                    (headers cl),
                    req_body =
                      Some (archive_document (session payload) second_now (history payload))\<rparr>]"
      using rq by simp_all
  }
  {
    assume bad: "(sessionArchive cfg = Flag True \<or> sessionArchive cfg = Text (lit ''true''))
           \<and> client s = Some cl \<and> connected cl
           \<and> encodeURIComponent e path = Threw x"
    have go: "\<not> (sessionArchive cfg \<noteq> Flag True \<and> js_String (sessionArchive cfg) \<noteq> lit ''true'')"
      using bad by (auto simp add: js_String_true)
    have wr: "write_note e cl path ?doc w = (Threw x, cl, w)"
      using bad by (simp add: encode_failure_no_request)
    have "fst (session_destroy e s payload first_now second_now w) = Returned ()
          \<and> requests (snd (snd (session_destroy e s payload first_now second_now w))) = requests w"
      using assms(1,2) bad go wr path
      by (auto simp add: session_destroy_def isConnected_def Let_def requests_log_to)
    then show "fst (session_destroy e s payload first_now second_now w) = Returned ()"
      and "requests (snd (snd (session_destroy e s payload first_now second_now w))) = requests w"
      by simp_all
  }
qed

theorem session_archive_write_witness:
  "fst (session_destroy demo_env demo_state \<lparr>session = lit ''s1'', history = []\<rparr>
          (lit ''2026-11-03T10:00:00.000Z'') (lit ''2026-11-03T10:00:00.001Z'') demo_world) =
     Returned ()
   \<and> requests (snd (snd (session_destroy demo_env demo_state
          \<lparr>session = lit ''s1'', history = []\<rparr>
          (lit ''2026-11-03T10:00:00.000Z'') (lit ''2026-11-03T10:00:00.001Z'') demo_world))) =
       [\<lparr>req_url = baseUrl demo_client @ lit ''/vault/''
                    @ lit ''WOPR'' @ lit ''/sessions/'' @ lit ''2026-11-03'' @ lit ''-''
                    @ lit ''s1'' @ lit ''.md'',
         req_method = PUT,
         req_headers = AList.update (lit ''Content-Type'') (lit ''text/markdown'')
                         (headers demo_client),
         req_body = Some (archive_document (lit ''s1'') (lit ''2026-11-03T10:00:00.001Z'') [])\<rparr>]
   \<and> session_destroy demo_env (demo_state\<lparr>client := None\<rparr>)
          \<lparr>session = lit ''s1'', history = []\<rparr>
          (lit ''2026-11-03T10:00:00.000Z'') (lit ''2026-11-03T10:00:00.001Z'') demo_world =
       (Returned (), demo_state\<lparr>client := None\<rparr>, demo_world)
   \<and> requests (snd (snd (session_destroy strict_env demo_state
          \<lparr>session = [0xD800], history = []\<rparr>
          (lit ''2026-11-03T10:00:00.000Z'') (lit ''2026-11-03T10:00:00.001Z'') demo_world))) =
       []"
proof -
  let ?cfg = "getConfig demo_context (host demo_world)"
  let ?ev = "\<lparr>session = lit ''s1'', history = []\<rparr>"
  let ?bad = "\<lparr>session = [0xD800 :: code_unit], history = []\<rparr>"
  let ?p = "lit ''WOPR'' @ lit ''/sessions/'' @ lit ''2026-11-03'' @ lit ''-''
              @ lit ''s1'' @ lit ''.md''"
  let ?q = "lit ''WOPR'' @ lit ''/sessions/'' @ lit ''2026-11-03'' @ lit ''-''
              @ [0xD800 :: code_unit] @ lit ''.md''"
  have cfg: "?cfg = demo_config"
    by (simp add: demo_context_def demo_world_def demo_host_def)
  have a: "ctx demo_state = Some demo_context" by (simp add: demo_state_def)
  have a': "ctx (demo_state\<lparr>client := None\<rparr>) = Some demo_context" by (simp add: demo_state_def)
  have pth: "?p = (case vaultPath ?cfg of None \<Rightarrow> lit ''WOPR'' | Some v \<Rightarrow> v)
                @ lit ''/sessions/'' @ take 10 (lit ''2026-11-03T10:00:00.000Z'') @ lit ''-''
                @ session ?ev @ lit ''.md''"
    unfolding cfg by (simp add: demo_config_def lit_def)
  have qth: "?q = (case vaultPath ?cfg of None \<Rightarrow> lit ''WOPR'' | Some v \<Rightarrow> v)
                @ lit ''/sessions/'' @ take 10 (lit ''2026-11-03T10:00:00.000Z'') @ lit ''-''
                @ session ?bad @ lit ''.md''"
    unfolding cfg by (simp add: demo_config_def lit_def)
  have on: "(sessionArchive ?cfg = Flag True \<or> sessionArchive ?cfg = Text (lit ''true''))
           \<and> client demo_state = Some demo_client \<and> connected demo_client
           \<and> encodeURIComponent demo_env ?p = Returned ?p"
    unfolding cfg
    by (simp add: demo_config_def demo_state_def demo_client_def demo_env_def)
  have off: "\<not> ((sessionArchive ?cfg = Flag True \<or> sessionArchive ?cfg = Text (lit ''true''))
             \<and> (\<exists>cl. client (demo_state\<lparr>client := None\<rparr>) = Some cl \<and> connected cl))"
    by simp
  have bad: "(sessionArchive ?cfg = Flag True \<or> sessionArchive ?cfg = Text (lit ''true''))
           \<and> client demo_state = Some demo_client \<and> connected demo_client
           \<and> encodeURIComponent strict_env ?q = Threw (JsError (lit ''URI malformed''))"
    unfolding cfg
    by (simp add: demo_config_def demo_state_def demo_client_def strict_env_def demo_env_def
          lit_def)
  note t1 = session_archive_write [where e = demo_env and s = demo_state and h = demo_context
      and w = demo_world and payload = ?ev
      and first_now = "lit ''2026-11-03T10:00:00.000Z''"
      and second_now = "lit ''2026-11-03T10:00:00.001Z''"
      and cl = demo_client and p = ?p, OF a refl pth,
      THEN conjunct2, THEN conjunct1, THEN mp, OF on]
  note t2 = session_archive_write [where e = demo_env and s = "demo_state\<lparr>client := None\<rparr>"
      and h = demo_context and w = demo_world and payload = ?ev
      and first_now = "lit ''2026-11-03T10:00:00.000Z''"
      and second_now = "lit ''2026-11-03T10:00:00.001Z''", OF a' refl pth,
      THEN conjunct1, THEN mp, OF off]
  note t3 = session_archive_write [where e = strict_env and s = demo_state and h = demo_context
      and w = demo_world and payload = ?bad
      and first_now = "lit ''2026-11-03T10:00:00.000Z''"
      and second_now = "lit ''2026-11-03T10:00:00.001Z''"
      and cl = demo_client and x = "JsError (lit ''URI malformed'')", OF a refl qth,
      THEN conjunct2, THEN conjunct2, THEN mp, OF bad]
  show ?thesis
    using t1 t2 t3 by (simp add: demo_world_def)
qed

section \<open>Properties of shutdown\<close>

lemma timers_run_cleanups: "timers (run_cleanups cs w) = timers w"
  by (induction cs arbitrary: w) simp_all

lemma host_run_cleanups:
  "host (run_cleanups cs w) = fold (\<lambda>cleanup h. snd (cleanup h)) cs (host w)"
  by (induction cs arbitrary: w) simp_all

text \<open>
  The cleanups run in the order of the registry, each on the host state its predecessor
  left, whether or not it threw.  Whether or not shutdown completes, the timer variable
  is reset and the cleanup registry is emptied.
\<close>

lemma shutdown_always:
  "healthTimer (fst (snd (shutdown s w))) = None
   \<and> cleanups (fst (snd (shutdown s w))) = []"
  by (simp add: shutdown_def Let_def split: option.split prod.split result.split)

lemma timers_optional_call: "timers (snd (optional_call c m name w)) = timers w"
  by (simp add: optional_call_def split: option.split prod.split)

text \<open>Whether or not shutdown completes, the poller's timer is no longer running.\<close>

lemma shutdown_stops_timer:
  assumes "healthTimer s = Some t"
  shows "t \<notin> set (timers (snd (snd (shutdown s w))))"
proof -
  let ?w2 = "run_cleanups (cleanups s) (clearInterval t w)"
  let ?n1 = "lit ''wopr-plugin-obsidian''"
  let ?n2 = "lit ''obsidian''"
  obtain r3 w3 where c3: "optional_call (ctx s) unregisterConfigSchema ?n1 ?w2 = (r3, w3)"
    by (cases "optional_call (ctx s) unregisterConfigSchema ?n1 ?w2")
  obtain r4 w4 where c4: "optional_call (ctx s) unregisterContextProvider ?n2 w3 = (r4, w4)"
    by (cases "optional_call (ctx s) unregisterContextProvider ?n2 w3")
  obtain r5 w5 where c5: "optional_call (ctx s) unregisterExtension ?n2 w4 = (r5, w5)"
    by (cases "optional_call (ctx s) unregisterExtension ?n2 w4")
  have t2: "timers ?w2 = removeAll t (timers w)"
    by (simp add: timers_run_cleanups clearInterval_def)
  have t3: "timers w3 = timers ?w2"
    using timers_optional_call [of "ctx s" unregisterConfigSchema ?n1 ?w2] c3 by simp
  have t4: "timers w4 = timers w3"
    using timers_optional_call [of "ctx s" unregisterContextProvider ?n2 w3] c4 by simp
  have t5: "timers w5 = timers w4"
    using timers_optional_call [of "ctx s" unregisterExtension ?n2 w4] c5 by simp
  have "timers (snd (snd (shutdown s w))) = removeAll t (timers w)"
    using assms c3 c4 c5 t2 t3 t4 t5
    by (cases r3; cases r4; cases r5) (simp_all add: shutdown_def)
  then show ?thesis by simp
qed

text \<open>
  Claim C4, at a running state whose host throws from \<open>unregisterConfigSchema\<close>: the
  poller is stopped, both cleanups run although the first one throws, and the registry
  is cleared; then shutdown rejects with the host's error, the context provider and the
  extension stay registered, and the client reference is not released.
\<close>

theorem shutdown_stops_at_failing_unregistration:
  "fst (shutdown failing_state demo_world) = Threw (JsError (lit ''registry closed''))
   \<and> healthTimer (fst (snd (shutdown failing_state demo_world))) = None
   \<and> timers (snd (snd (shutdown failing_state demo_world))) = []
   \<and> cleanups (fst (snd (shutdown failing_state demo_world))) = []
   \<and> dh_subscribed (host (snd (snd (shutdown failing_state demo_world)))) = []
   \<and> dh_schemas (host (snd (snd (shutdown failing_state demo_world)))) = [lit ''wopr-plugin-obsidian'']
   \<and> dh_providers (host (snd (snd (shutdown failing_state demo_world)))) = [lit ''obsidian'']
   \<and> dh_extensions (host (snd (snd (shutdown failing_state demo_world)))) = [lit ''obsidian'']
   \<and> client (fst (snd (shutdown failing_state demo_world))) = Some demo_client"
  by (simp add: shutdown_def failing_state_def demo_state_def demo_world_def demo_host_def
        failing_context_def demo_context_def optional_call_def clearInterval_def
        unsubscribe_def unsubscribe_throwing_def lit_def)

text \<open>
  When shutdown has completed, all four module variables are reset, and a second
  shutdown returns leaving the module state and the world (timers, requests and the
  host's registrations) exactly as the first one left them.
\<close>

lemma shutdown_idempotent:
  assumes "shutdown s w = (Returned u, s', w')"
  shows "shutdown s' w' = (Returned (), s', w')
         \<and> ctx s' = None \<and> client s' = None \<and> healthTimer s' = None \<and> cleanups s' = []"
proof -
  have s': "ctx s' = None \<and> client s' = None \<and> healthTimer s' = None \<and> cleanups s' = []"
    using assms
    by (auto simp add: shutdown_def Let_def split: option.splits prod.splits result.splits)
  then have "shutdown s' w' = (Returned (), s', w')"
    by (simp add: shutdown_def optional_call_def)
  with s' show ?thesis by simp
qed

lemma shutdown_idempotent_running:
  "fst (shutdown demo_state demo_world) = Returned ()
   \<and> shutdown (fst (snd (shutdown demo_state demo_world)))
               (snd (snd (shutdown demo_state demo_world))) =
       (Returned (), fst (snd (shutdown demo_state demo_world)),
        snd (snd (shutdown demo_state demo_world)))"
proof -
  have r: "fst (shutdown demo_state demo_world) = Returned ()"
    by (simp add: shutdown_def demo_state_def demo_world_def demo_host_def
        demo_context_def optional_call_def clearInterval_def
        unsubscribe_def unsubscribe_throwing_def)
  then have "shutdown demo_state demo_world =
               (Returned (), fst (snd (shutdown demo_state demo_world)),
                snd (snd (shutdown demo_state demo_world)))"
    by (simp add: prod_eq_iff)
  from shutdown_idempotent [OF this] r show ?thesis by simp
qed

text \<open>
  Claim C5, at a running state whose host throws from an unregistration.  With a
  registry that is busy once, the first shutdown rejects and keeps the client and the
  provider's registration, the second one completes, releases the client and removes
  the registration: the state after two calls is not the state after one.  With the
  registry that always refuses, the second call goes to the host again and rejects
  again instead of doing nothing.
\<close>

theorem shutdown_twice_after_failure:
  "fst (shutdown flaky_state demo_world) = Threw (JsError (lit ''registry busy''))
   \<and> client (fst (snd (shutdown flaky_state demo_world))) = Some demo_client
   \<and> dh_providers (host (snd (snd (shutdown flaky_state demo_world)))) = [lit ''obsidian'']
   \<and> fst (shutdown (fst (snd (shutdown flaky_state demo_world)))
                    (snd (snd (shutdown flaky_state demo_world)))) = Returned ()
   \<and> client (fst (snd (shutdown (fst (snd (shutdown flaky_state demo_world)))
                                 (snd (snd (shutdown flaky_state demo_world)))))) = None
   \<and> dh_providers (host (snd (snd (shutdown (fst (snd (shutdown flaky_state demo_world)))
                                            (snd (snd (shutdown flaky_state demo_world))))))) = []
   \<and> fst (shutdown (fst (snd (shutdown failing_state demo_world)))
                    (snd (snd (shutdown failing_state demo_world)))) =
       Threw (JsError (lit ''registry closed''))"
  by (simp add: shutdown_def flaky_state_def failing_state_def demo_state_def demo_world_def
        demo_host_def flaky_context_def failing_context_def demo_context_def optional_call_def
        clearInterval_def unsubscribe_def unsubscribe_throwing_def)

end
